theory Spec2Isabelle
  imports Complex_Main
begin

section \<open>Errors\<close>

text \<open>
  The exceptions the modelled code can raise. \<open>ValueError\<close> carries the message of the
  \<^verbatim>\<open>raise ValueError(...)\<close> statements of \<^verbatim>\<open>SGD.__init__\<close>; \<open>InvalidArgumentError\<close> is the
  framework's error for a failed shape requirement (random crop larger than the image,
  stacking tensors of different shapes, an empty shuffle buffer); \<open>IndexError\<close> is Python's
  \<^verbatim>\<open>pop from empty list\<close> and an index past the end of a sequence; \<open>KeyError\<close> is a slot
  lookup that finds nothing.
\<close>

datatype error = ValueError string | InvalidArgumentError | IndexError | KeyError

section \<open>The optimizer (optimizer\_alexnet.py, class SGD)\<close>

text \<open>
  Numbers are modelled as mathematical reals: the arithmetic of the update rules is exact
  here, rounding of machine floats is outside the model. A tensor is the list of its
  components (the update kernels work component by component).

  A hyperparameter given to the constructor is a Python number, a tensor, or a callable;
  the constructor tells them apart with \<^verbatim>\<open>isinstance\<close> and \<^verbatim>\<open>callable\<close>. The payload of
  \<open>Tensor\<close> and \<open>Callable\<close> is the value they yield when read.
\<close>

type_synonym tensor = "real list"

datatype hyper = Number real | Tensor real | Callable real

fun hyper_value :: "hyper \<Rightarrow> real" where
  "hyper_value (Number x) = x"
| "hyper_value (Tensor x) = x"
| "hyper_value (Callable x) = x"

text \<open>\<^verbatim>\<open>isinstance(h, ops.Tensor) or callable(h) or h > 0\<close>\<close>

fun enabled :: "hyper \<Rightarrow> bool" where
  "enabled (Number x) = (x > 0)"
| "enabled (Tensor x) = True"
| "enabled (Callable x) = True"

text \<open>\<^verbatim>\<open>isinstance(h, (int, float)) and (h < 0 or h > 1)\<close>\<close>

fun out_of_unit_range :: "hyper \<Rightarrow> bool" where
  "out_of_unit_range (Number x) = (x < 0 \<or> x > 1)"
| "out_of_unit_range (Tensor x) = False"
| "out_of_unit_range (Callable x) = False"

text \<open>
  The optimizer object. \<open>flag_weight_decay\<close> and \<open>flag_momentum\<close> are the attributes
  \<^verbatim>\<open>self._weight_decay\<close> and \<^verbatim>\<open>self._momentum\<close>; \<open>slots\<close> is the optimizer's auxiliary
  state, keyed by variable name and slot name.
\<close>

record SGD =
  learning_rate :: real
  weight_decay :: hyper
  momentum :: hyper
  flag_weight_decay :: bool
  flag_momentum :: bool
  nesterov :: bool
  slots :: "string \<times> string \<rightharpoonup> tensor"

text \<open>
  \<^verbatim>\<open>SGD.__init__\<close> (lines 77-102), called with no extra keyword arguments. Both range
  checks test \<^verbatim>\<open>momentum\<close>; the first one raises with the message about
  \<^verbatim>\<open>weight_decay\<close>.
\<close>

definition SGD_init :: "real \<Rightarrow> hyper \<Rightarrow> hyper \<Rightarrow> bool \<Rightarrow> error + SGD" where
  "SGD_init lr wd mom nest =
     (if out_of_unit_range mom
      then Inl (ValueError ''`weight_decay` must be between [0, 1].'')
      else if out_of_unit_range mom
      then Inl (ValueError ''`momentum` must be between [0, 1].'')
      else Inr \<lparr> learning_rate = lr, weight_decay = wd, momentum = mom,
                 flag_weight_decay = enabled wd, flag_momentum = enabled mom,
                 nesterov = nest, slots = Map.empty \<rparr>)"

text \<open>
  \<^verbatim>\<open>add_slot(var, name)\<close> of the optimizer base class: a slot that does not exist yet is
  created with the shape of the variable and filled with zeros; an existing slot is kept.
\<close>

definition add_slot :: "string \<times> tensor \<Rightarrow> string \<Rightarrow> SGD \<Rightarrow> SGD" where
  "add_slot var name opt =
     (case slots opt (fst var, name) of
        Some _ \<Rightarrow> opt
      | None \<Rightarrow> opt \<lparr> slots := (slots opt)((fst var, name) \<mapsto> replicate (length (snd var)) 0) \<rparr>)"

text \<open>\<^verbatim>\<open>SGD._create_slots\<close> (lines 104-111): two loops over the variable list.\<close>

definition create_slots :: "(string \<times> tensor) list \<Rightarrow> SGD \<Rightarrow> SGD" where
  "create_slots var_list opt =
     (let opt1 = (if flag_momentum opt
                  then fold (\<lambda>var acc. add_slot var ''momentum'' acc) var_list opt else opt)
      in if flag_weight_decay opt1
         then fold (\<lambda>var acc. add_slot var ''weight_decay'' acc) var_list opt1 else opt1)"

text \<open>
  \<^verbatim>\<open>SGD._prepare_local\<close> (lines 113-118): the coefficients read by the update. With no
  learning-rate decay configured, \<^verbatim>\<open>lr_t\<close> is the learning rate itself.
\<close>

record coefficients =
  lr_t :: real
  coef_momentum :: real
  coef_weight_decay :: real

definition prepare_local :: "SGD \<Rightarrow> coefficients" where
  "prepare_local opt =
     \<lparr> lr_t = learning_rate opt,
       coef_momentum = hyper_value (momentum opt),
       coef_weight_decay = hyper_value (weight_decay opt) \<rparr>"

text \<open>
  The two framework kernels called by the update, as the framework documents them:
  \<^verbatim>\<open>accum = accum * momentum - lr * grad\<close>, then \<^verbatim>\<open>var += accum\<close>, or with Nesterov
  \<^verbatim>\<open>var += accum * momentum - lr * grad\<close>; and \<^verbatim>\<open>var -= lr * grad\<close>. They require the
  gradient to have the shape of the variable. The momentum kernel returns the new
  variable and the new accumulator.
\<close>

definition resource_apply_keras_momentum ::
  "tensor \<Rightarrow> tensor \<Rightarrow> real \<Rightarrow> tensor \<Rightarrow> real \<Rightarrow> bool \<Rightarrow> error + tensor \<times> tensor" where
  "resource_apply_keras_momentum var accum lr grad mom use_nesterov =
     (if length grad = length var \<and> length accum = length var
      then let accum' = map2 (\<lambda>a g. a * mom - lr * g) accum grad
           in if use_nesterov
              then Inr (map2 (+) var (map2 (\<lambda>a g. a * mom - lr * g) accum' grad), accum')
              else Inr (map2 (+) var accum', accum')
      else Inl InvalidArgumentError)"

definition resource_apply_gradient_descent ::
  "tensor \<Rightarrow> real \<Rightarrow> tensor \<Rightarrow> error + tensor" where
  "resource_apply_gradient_descent var lr grad =
     (if length grad = length var then Inr (map2 (\<lambda>w g. w - lr * g) var grad)
      else Inl InvalidArgumentError)"

text \<open>
  \<^verbatim>\<open>SGD._resource_apply_dense\<close> (lines 120-137). The variable is given by name and
  value; the result is the new value of the variable and the optimizer with its slots
  updated. \<^verbatim>\<open>get_slot\<close> raises \<^verbatim>\<open>KeyError\<close> when the slot was never created. The
  coefficient \<^verbatim>\<open>weight_decay\<close> and the slot of that name are not read.
\<close>

definition resource_apply_dense ::
  "SGD \<Rightarrow> tensor \<Rightarrow> string \<times> tensor \<Rightarrow> error + tensor \<times> SGD" where
  "resource_apply_dense opt grad var =
     (let coefficients = prepare_local opt in
      if flag_momentum opt then
        (case slots opt (fst var, ''momentum'') of
           None \<Rightarrow> Inl KeyError
         | Some momentum_var \<Rightarrow>
             (case resource_apply_keras_momentum (snd var) momentum_var (lr_t coefficients)
                     grad (coef_momentum coefficients) (nesterov opt) of
                Inl e \<Rightarrow> Inl e
              | Inr (w', v') \<Rightarrow>
                  Inr (w', opt \<lparr> slots := (slots opt)((fst var, ''momentum'') \<mapsto> v') \<rparr>)))
      else
        (case resource_apply_gradient_descent (snd var) (lr_t coefficients) grad of
           Inl e \<Rightarrow> Inl e
         | Inr w' \<Rightarrow> Inr (w', opt)))"

text \<open>
  One optimizer step on one variable, as \<^verbatim>\<open>apply_gradients\<close> performs it: the slots are
  created (on first use), then the dense update runs.
\<close>

definition step :: "SGD \<Rightarrow> tensor \<Rightarrow> string \<times> tensor \<Rightarrow> error + tensor \<times> SGD" where
  "step opt grad var = resource_apply_dense (create_slots [var] opt) grad var"


section \<open>The augmentation worker (main.py, lines 70-136)\<close>

text \<open>
  An image is a tensor of shape (height, width, 3): its two spatial dimensions and the
  pixel at each row and column, a triple of channel values (the decoder is called with
  \<^verbatim>\<open>channels=3\<close>). Pixel values are reals, as the optimizer's numbers are.
\<close>

type_synonym pixel = "real \<times> real \<times> real"

record image =
  height :: nat
  width :: nat
  pix :: "nat \<Rightarrow> nat \<Rightarrow> pixel"

text \<open>The constants of \<^verbatim>\<open>image_cropping\<close> and of the module.\<close>

definition INPUT_IMAGE_SIZE :: nat where
  "INPUT_IMAGE_SIZE = 227"

definition IMAGENET_MEAN :: pixel where
  "IMAGENET_MEAN = (122.10927936917298, 116.5416959998387, 102.61744377213829)"

text \<open>
  \<^verbatim>\<open>tf.subtract(x, IMAGENET_MEAN)\<close>: the mean vector is subtracted from every pixel
  (broadcast over rows and columns).
\<close>

fun sub_pixel :: "pixel \<Rightarrow> pixel \<Rightarrow> pixel" where
  "sub_pixel (r, g, b) (mr, mg, mb) = (r - mr, g - mg, b - mb)"

definition tf_subtract :: "image \<Rightarrow> pixel \<Rightarrow> image" where
  "tf_subtract img mean = img \<lparr> pix := \<lambda>r c. sub_pixel (pix img r c) mean \<rparr>"

text \<open>\<^verbatim>\<open>tf.image.flip_left_right\<close>: column \<open>c\<close> of the result is column \<open>width - 1 - c\<close>.\<close>

definition flip_left_right :: "image \<Rightarrow> image" where
  "flip_left_right img = img \<lparr> pix := \<lambda>r c. pix img r (width img - 1 - c) \<rparr>"

text \<open>
  A slice \<^verbatim>\<open>a:b\<close> with optional non-negative bounds on an axis of length \<open>n\<close>: both bounds
  are clipped to \<open>n\<close>, an empty range when the start is past the stop; the result is the
  start and the number of indices. \<open>slice2 rows cols img\<close> is \<^verbatim>\<open>img[rows, cols]\<close>.
\<close>

definition slice_bounds :: "nat option \<times> nat option \<Rightarrow> nat \<Rightarrow> nat \<times> nat" where
  "slice_bounds sl n =
     (let start = min (case fst sl of None \<Rightarrow> 0 | Some a \<Rightarrow> a) n;
          stop = min (case snd sl of None \<Rightarrow> n | Some b \<Rightarrow> b) n
      in (start, stop - start))"

definition slice2 :: "nat option \<times> nat option \<Rightarrow> nat option \<times> nat option \<Rightarrow> image \<Rightarrow> image" where
  "slice2 rows cols img =
     (let (r0, h) = slice_bounds rows (height img);
          (c0, w) = slice_bounds cols (width img)
      in \<lparr> height = h, width = w, pix = \<lambda>r c. pix img (r0 + r) (c0 + c) \<rparr>)"

text \<open>
  \<^verbatim>\<open>tf.image.random_crop(img, size)\<close>: fails unless the image is at least as large as the
  crop; the offset on each axis is a random draw reduced modulo \<open>dimension - size + 1\<close>.
  The raw draws are a parameter.
\<close>

definition random_crop :: "nat \<times> nat \<Rightarrow> image \<Rightarrow> nat \<times> nat \<Rightarrow> error + image" where
  "random_crop rnd img crop_size =
     (if fst crop_size \<le> height img \<and> snd crop_size \<le> width img
      then Inr \<lparr> height = fst crop_size, width = snd crop_size,
                 pix = \<lambda>r c. pix img (fst rnd mod (height img - fst crop_size + 1) + r)
                                     (snd rnd mod (width img - snd crop_size + 1) + c) \<rparr>
      else Inl InvalidArgumentError)"

text \<open>\<^verbatim>\<open>tf.stack\<close>: the tensors must all have the same shape.\<close>

definition tf_stack :: "image list \<Rightarrow> error + image list" where
  "tf_stack imgs =
     (case imgs of
        [] \<Rightarrow> Inr []
      | x # rest \<Rightarrow>
          if list_all (\<lambda>y. height y = height x \<and> width y = width x) rest
          then Inr imgs else Inl InvalidArgumentError)"

text \<open>
  \<^verbatim>\<open>image_cropping\<close> (lines 84-136). The first axis of an image is its rows, so
  \<^verbatim>\<open>image[29:, :227]\<close> is rows 29 onwards and columns 0 to 226.
\<close>

definition image_cropping ::
  "image \<Rightarrow> bool \<Rightarrow> (nat \<times> nat) \<times> (nat \<times> nat) \<Rightarrow> error + image list" where
  "image_cropping img training rnd =
     (if training then
        (let horizental_fliped_image = flip_left_right img in
         case random_crop (fst rnd) img (INPUT_IMAGE_SIZE, INPUT_IMAGE_SIZE) of
           Inl e \<Rightarrow> Inl e
         | Inr ran_crop_image1 \<Rightarrow>
         (case random_crop (snd rnd) horizental_fliped_image
                 (INPUT_IMAGE_SIZE, INPUT_IMAGE_SIZE) of
           Inl e \<Rightarrow> Inl e
         | Inr ran_crop_image2 \<Rightarrow>
             tf_stack [tf_subtract ran_crop_image1 IMAGENET_MEAN,
                       tf_subtract ran_crop_image2 IMAGENET_MEAN]))
      else
        (let horizental_fliped_image = flip_left_right img;
             topleft = slice2 (None, Some 227) (None, Some 227) img;
             topright = slice2 (Some 29, None) (None, Some 227) img;
             bottomleft = slice2 (None, Some 227) (Some 29, None) img;
             bottomright = slice2 (Some 29, None) (Some 29, None) img;
             center = slice2 (Some 15, Some 242) (Some 15, Some 242) img;
             horizental_fliped_image_topleft =
               slice2 (None, Some 227) (None, Some 227) horizental_fliped_image;
             horizental_fliped_image_topright =
               slice2 (Some 29, None) (None, Some 227) horizental_fliped_image;
             horizental_fliped_image_bottomleft =
               slice2 (None, Some 227) (Some 29, None) horizental_fliped_image;
             horizental_fliped_image_bottomright =
               slice2 (Some 29, None) (Some 29, None) horizental_fliped_image;
             horizental_fliped_image_center =
               slice2 (Some 15, Some 242) (Some 15, Some 242) horizental_fliped_image
         in tf_stack
              [tf_subtract topleft IMAGENET_MEAN,
               tf_subtract topright IMAGENET_MEAN,
               tf_subtract bottomleft IMAGENET_MEAN,
               tf_subtract bottomright IMAGENET_MEAN,
               tf_subtract center IMAGENET_MEAN,
               tf_subtract horizental_fliped_image_topleft IMAGENET_MEAN,
               tf_subtract horizental_fliped_image_topright IMAGENET_MEAN,
               tf_subtract horizental_fliped_image_bottomleft IMAGENET_MEAN,
               tf_subtract horizental_fliped_image_bottomright IMAGENET_MEAN,
               tf_subtract horizental_fliped_image_center IMAGENET_MEAN]))"

text \<open>
  \<^verbatim>\<open>img_preprocessing\<close> (lines 70-82). \<open>preprocess_loop\<close> is its \<^verbatim>\<open>for i in range(0, len(labels))\<close>
  loop, with the two result lists as accumulator; indexing the image batch past its end
  fails. The result is appended to \<open>q\<close> only after the loop has ended.
\<close>

fun preprocess_loop ::
  "image list \<Rightarrow> int list \<Rightarrow> bool \<Rightarrow> (nat \<Rightarrow> (nat \<times> nat) \<times> (nat \<times> nat)) \<Rightarrow> nat list
   \<Rightarrow> image list \<times> int list \<Rightarrow> error + image list \<times> int list" where
  "preprocess_loop images labels train rnd [] acc = Inr acc"
| "preprocess_loop images labels train rnd (i # rest) acc =
     (if i < length images then
        (case image_cropping (images ! i) train (rnd i) of
           Inl e \<Rightarrow> Inl e
         | Inr cropped_intend_image \<Rightarrow>
             preprocess_loop images labels train rnd rest
               (fst acc @ cropped_intend_image,
                snd acc @ replicate (length cropped_intend_image) (labels ! i)))
      else Inl InvalidArgumentError)"

definition img_preprocessing ::
  "(image list \<times> int list) list \<Rightarrow> image list \<Rightarrow> int list \<Rightarrow> bool
   \<Rightarrow> (nat \<Rightarrow> (nat \<times> nat) \<times> (nat \<times> nat)) \<Rightarrow> error + (image list \<times> int list) list" where
  "img_preprocessing q images labels train rnd =
     (case preprocess_loop images labels train rnd [0..<length labels] ([], []) of
        Inl e \<Rightarrow> Inl e
      | Inr (test_images, test_labels) \<Rightarrow> Inr (q @ [(test_images, test_labels)]))"

section \<open>The double-buffer loop of an epoch (main.py, lines 328-366 and 372-407)\<close>

text \<open>
  The two dataset operations of the re-split. \<open>shuffle_ds\<close> is a shuffle whose buffer holds
  the whole input: each output element is drawn from the elements left, at the index
  given by a random draw (a parameter, reduced modulo the number left). \<open>ds_shuffle\<close> is
  \<^verbatim>\<open>Dataset.shuffle(buffer_size)\<close> as the loop calls it, with the length of the batch as
  buffer size; the framework rejects a buffer size of zero. \<open>ds_batch\<close> is
  \<^verbatim>\<open>Dataset.batch(batch_size, drop_remainder)\<close>; the framework rejects batch size 0,
  which the loop never passes.
\<close>

definition BATCH_SIZE :: nat where
  "BATCH_SIZE = 128"

function shuffle_ds :: "(nat \<Rightarrow> nat) \<Rightarrow> 'a list \<Rightarrow> 'a list" where
  "shuffle_ds pick xs =
     (if xs = [] then []
      else xs ! (pick (length xs) mod length xs)
           # shuffle_ds pick (take (pick (length xs) mod length xs) xs
                              @ drop (Suc (pick (length xs) mod length xs)) xs))"
  by pat_completeness auto
termination
proof (relation "measure (\<lambda>(pick, xs). length xs)")
  show "wf (measure (\<lambda>(pick :: nat \<Rightarrow> nat, xs :: 'a list). length xs))"
    by simp
next
  fix pick :: "nat \<Rightarrow> nat" and xs :: "'a list"
  assume "xs \<noteq> []"
  then have "pick (length xs) mod length xs < length xs"
    by simp
  then show "((pick, take (pick (length xs) mod length xs) xs
                     @ drop (Suc (pick (length xs) mod length xs)) xs), pick, xs)
             \<in> measure (\<lambda>(pick, xs). length xs)"
    by simp
qed

definition ds_shuffle :: "nat \<Rightarrow> (nat \<Rightarrow> nat) \<Rightarrow> 'a list \<Rightarrow> error + 'a list" where
  "ds_shuffle buffer_size pick xs =
     (if 0 < buffer_size then Inr (shuffle_ds pick xs) else Inl InvalidArgumentError)"

function ds_batch :: "nat \<Rightarrow> bool \<Rightarrow> 'a list \<Rightarrow> 'a list list" where
  "ds_batch batch_size drop_remainder xs =
     (if batch_size = 0 \<or> xs = [] then []
      else if length xs < batch_size then (if drop_remainder then [] else [xs])
      else take batch_size xs # ds_batch batch_size drop_remainder (drop batch_size xs))"
  by pat_completeness auto
termination
  by (relation "measure (\<lambda>(batch_size, drop_remainder, xs). length xs)") auto


text \<open>
  What the loop does with a popped augmented batch (lines 339-344, 356-362 and their
  copies in the evaluation loop): stack the images, slice images and labels into
  samples (both must have the same number of entries), shuffle with the batch length as
  buffer size, and re-split into sub-batches of 128, dropping the remainder.
\<close>

definition resplit ::
  "image list \<times> int list \<Rightarrow> (nat \<Rightarrow> nat) \<Rightarrow> error + (image \<times> int) list list" where
  "resplit popped pick =
     (let train_images = fst popped; train_labels = snd popped;
          batch_length = length train_labels
      in case tf_stack train_images of
           Inl e \<Rightarrow> Inl e
         | Inr stacked \<Rightarrow>
             if length stacked = length train_labels
             then (case ds_shuffle batch_length pick (zip stacked train_labels) of
                     Inl e \<Rightarrow> Inl e
                   | Inr shuffled \<Rightarrow> Inr (ds_batch BATCH_SIZE True shuffled))
             else Inl InvalidArgumentError)"

text \<open>
  The events of an epoch, in program order: a preprocessing thread is started and
  joined (with the number of the raw batch it works on); the thread posts an augmented
  batch into \<open>q\<close>; the loop pops an augmented batch from \<open>q\<close>; the loop runs one
  train or evaluation step on a sub-batch.
\<close>

datatype event =
    Start nat
  | Post "image list \<times> int list"
  | Join nat
  | Pop "image list \<times> int list"
  | Step "(image \<times> int) list"

record loop_state =
  q :: "(image list \<times> int list) list"
  isFirst :: bool
  trace :: "event list"

text \<open>
  A thread from \<^verbatim>\<open>t.start()\<close> to \<^verbatim>\<open>t.join()\<close>. The thread runs \<^verbatim>\<open>img_preprocessing\<close>, whose
  only effect on shared state is the final \<^verbatim>\<open>q.append\<close>; between start and join the loop
  runs its steps on the sub-batches \<open>main_work\<close> and does not touch \<open>q\<close>, so the post is
  placed right after the start, the earliest it can happen. An exception in the thread
  ends the thread only: nothing is posted and \<^verbatim>\<open>join\<close> returns normally.
\<close>

definition run_thread ::
  "nat \<Rightarrow> image list \<times> int list \<Rightarrow> bool \<Rightarrow> (nat \<Rightarrow> (nat \<times> nat) \<times> (nat \<times> nat))
   \<Rightarrow> (image \<times> int) list list \<Rightarrow> loop_state \<Rightarrow> loop_state" where
  "run_thread k raw train rnd main_work s =
     (let s1 = s \<lparr> trace := trace s @ [Start k] \<rparr>;
          s2 = (case img_preprocessing (q s1) (fst raw) (snd raw) train rnd of
                  Inl e \<Rightarrow> s1
                | Inr q' \<Rightarrow> s1 \<lparr> q := q', trace := trace s1 @ [Post (last q')] \<rparr>)
      in s2 \<lparr> trace := trace s2 @ map Step main_work @ [Join k] \<rparr>)"

text \<open>\<^verbatim>\<open>q.pop()\<close>: the last element, or \<^verbatim>\<open>IndexError\<close> on an empty list.\<close>

definition q_pop :: "loop_state \<Rightarrow> error + (image list \<times> int list) \<times> loop_state" where
  "q_pop s =
     (if q s = [] then Inl IndexError
      else Inr (last (q s), s \<lparr> q := butlast (q s), trace := trace s @ [Pop (last (q s))] \<rparr>))"

text \<open>
  The body of the loop over the raw batches (lines 330-352): \<open>k\<close> is the number of the raw
  batch, \<open>rnd k\<close> the random draws of its crops, \<open>pick k\<close> the random draws of the shuffle
  done in iteration \<open>k\<close>.
\<close>

definition loop_body ::
  "bool \<Rightarrow> (nat \<Rightarrow> nat \<Rightarrow> (nat \<times> nat) \<times> (nat \<times> nat)) \<Rightarrow> (nat \<Rightarrow> nat \<Rightarrow> nat)
   \<Rightarrow> nat \<Rightarrow> image list \<times> int list \<Rightarrow> loop_state \<Rightarrow> error + loop_state" where
  "loop_body train rnd pick k raw s =
     (if isFirst s then
        Inr ((run_thread k raw train (rnd k) [] s) \<lparr> isFirst := False \<rparr>)
      else
        (case q_pop s of
           Inl e \<Rightarrow> Inl e
         | Inr (popped, s1) \<Rightarrow>
             (case resplit popped (pick k) of
                Inl e \<Rightarrow> Inl e
              | Inr train_batch_ds \<Rightarrow> Inr (run_thread k raw train (rnd k) train_batch_ds s1))))"

fun run_batches ::
  "bool \<Rightarrow> (nat \<Rightarrow> nat \<Rightarrow> (nat \<times> nat) \<times> (nat \<times> nat)) \<Rightarrow> (nat \<Rightarrow> nat \<Rightarrow> nat)
   \<Rightarrow> nat \<Rightarrow> (image list \<times> int list) list \<Rightarrow> loop_state \<Rightarrow> error + loop_state" where
  "run_batches train rnd pick k [] s = Inr s"
| "run_batches train rnd pick k (raw # rest) s =
     (case loop_body train rnd pick k raw s of
        Inl e \<Rightarrow> Inl e
      | Inr s' \<Rightarrow> run_batches train rnd pick (Suc k) rest s')"

text \<open>The last step after the loop (lines 354-366): one more pop and its steps.\<close>

definition last_step :: "(nat \<Rightarrow> nat) \<Rightarrow> loop_state \<Rightarrow> error + loop_state" where
  "last_step pick s =
     (case q_pop s of
        Inl e \<Rightarrow> Inl e
      | Inr (popped, s1) \<Rightarrow>
          (case resplit popped pick of
             Inl e \<Rightarrow> Inl e
           | Inr train_batch_ds \<Rightarrow>
               Inr (s1 \<lparr> trace := trace s1 @ map Step train_batch_ds \<rparr>)))"

text \<open>One phase of an epoch: training (\<open>train = True\<close>) or evaluation.\<close>

definition epoch_phase ::
  "bool \<Rightarrow> (nat \<Rightarrow> nat \<Rightarrow> (nat \<times> nat) \<times> (nat \<times> nat)) \<Rightarrow> (nat \<Rightarrow> nat \<Rightarrow> nat)
   \<Rightarrow> (image list \<times> int list) list \<Rightarrow> error + loop_state" where
  "epoch_phase train rnd pick batches =
     (case run_batches train rnd pick 0 batches \<lparr> q = [], isFirst = True, trace = [] \<rparr> of
        Inl e \<Rightarrow> Inl e
      | Inr s \<Rightarrow> last_step (pick (length batches)) s)"






section \<open>The stagnation check of the epoch loop (main.py, lines 268 and 312-419)\<close>

text \<open>
  The loop over the epochs, reduced to what the stagnation check depends on: each epoch
  runs its training phase and its evaluation phase, then compares the accuracy of the
  evaluation, \<open>test_accuracy_result epoch\<close>, with \<open>prev_test_accuracy\<close> and calls
  \<^verbatim>\<open>performance_lr_scheduling()\<close> when the previous one is greater or equal. The log records
  the phases and the calls in program order.
\<close>

definition NUM_EPOCHS :: nat where
  "NUM_EPOCHS = 90"

datatype main_event = TrainPhase nat | EvalPhase nat | LrScheduling nat

record run_state =
  prev_test_accuracy :: real
  log :: "main_event list"

definition epoch_body :: "(nat \<Rightarrow> real) \<Rightarrow> nat \<Rightarrow> run_state \<Rightarrow> run_state" where
  "epoch_body test_accuracy_result epoch s =
     (let s1 = s \<lparr> log := log s @ [TrainPhase epoch, EvalPhase epoch] \<rparr>;
          s2 = (if prev_test_accuracy s1 \<ge> test_accuracy_result epoch
                then s1 \<lparr> log := log s1 @ [LrScheduling epoch] \<rparr> else s1)
      in s2 \<lparr> prev_test_accuracy := test_accuracy_result epoch \<rparr>)"

definition main_loop :: "nat \<Rightarrow> (nat \<Rightarrow> real) \<Rightarrow> run_state" where
  "main_loop num_epochs test_accuracy_result =
     fold (epoch_body test_accuracy_result) [0..<num_epochs]
       \<lparr> prev_test_accuracy = - 1, log = [] \<rparr>"

section \<open>Properties of the optimizer\<close>

lemma slots_add_slot_other:
  "name \<noteq> name' \<Longrightarrow> slots (add_slot var name opt) (x, name') = slots opt (x, name')"
  by (simp add: add_slot_def split: option.splits)

lemma add_slot_fields [simp]:
  "flag_momentum (add_slot var name opt) = flag_momentum opt"
  "flag_weight_decay (add_slot var name opt) = flag_weight_decay opt"
  "nesterov (add_slot var name opt) = nesterov opt"
  "learning_rate (add_slot var name opt) = learning_rate opt"
  "momentum (add_slot var name opt) = momentum opt"
  by (simp_all add: add_slot_def split: option.splits)

lemma create_slots_fields [simp]:
  "flag_momentum (create_slots [var] opt) = flag_momentum opt"
  "nesterov (create_slots [var] opt) = nesterov opt"
  "learning_rate (create_slots [var] opt) = learning_rate opt"
  "momentum (create_slots [var] opt) = momentum opt"
  by (simp_all add: create_slots_def Let_def)

text \<open>The velocity slot is created with zeros on first use and kept afterwards.\<close>

lemma create_slots_momentum_slot:
  "slots (create_slots [(x, w)] opt) (x, ''momentum'') =
     (if flag_momentum opt
      then (case slots opt (x, ''momentum'') of Some v \<Rightarrow> Some v
            | None \<Rightarrow> Some (replicate (length w) 0))
      else slots opt (x, ''momentum''))"
  by (simp add: create_slots_def Let_def slots_add_slot_other)
     (simp add: add_slot_def split: option.splits)

text \<open>The step with momentum, from any state of the velocity slot.\<close>

lemma step_momentum_rule:
  assumes "flag_momentum opt" "\<not> nesterov opt"
    and "slots (create_slots [(x, w)] opt) (x, ''momentum'') = Some v"
    and "length v = length w" "length g = length w"
  shows "step opt g (x, w) =
     Inr (map2 (+) w (map2 (\<lambda>a gi. a * hyper_value (momentum opt) - learning_rate opt * gi) v g),
          (create_slots [(x, w)] opt)
            \<lparr> slots := (slots (create_slots [(x, w)] opt))((x, ''momentum'') \<mapsto>
                 map2 (\<lambda>a gi. a * hyper_value (momentum opt) - learning_rate opt * gi) v g) \<rparr>)"
  using assms
  by (simp add: step_def resource_apply_dense_def prepare_local_def
        resource_apply_keras_momentum_def Let_def)

lemma step_value_independent_of_weight_decay:
  "map_sum id fst (step (opt\<lparr>weight_decay := wd, flag_weight_decay := f\<rparr>) g (x, w))
   = map_sum id fst (step opt g (x, w))"
  apply (simp add: step_def resource_apply_dense_def prepare_local_def Let_def create_slots_def)
  apply (simp add: add_slot_def split: option.splits sum.splits)
  done

text \<open>
  Claim C1. The claim: with \<open>weight_decay > 0\<close> the update behaves as if the gradient were
  \<open>g + weight_decay * w\<close>, so the applied step depends on \<open>weight_decay\<close>. The code: the new
  value of the variable after a step is the same whatever \<open>weight_decay\<close> and its flag are;
  with learning rate 0.1, momentum 0.9, weight decay 0.5, \<open>w = 1\<close> and \<open>g = 2\<close> the step
  gives \<open>w = 0.8\<close> (the undecayed step), where the claim's rule gives
  \<open>1 - 0.1 * (2 + 0.5 * 1) = 0.75\<close>.
\<close>

theorem C1_weight_decay_not_applied:
  "map_sum id fst (step (opt\<lparr>weight_decay := wd, flag_weight_decay := f\<rparr>) g (x, w))
     = map_sum id fst (step opt g (x, w))
   \<and> map_sum id fst
       (case SGD_init (1/10) (Number (1/2)) (Number (9/10)) False of
          Inl e \<Rightarrow> Inl e
        | Inr opt0 \<Rightarrow> step opt0 [2] (''w'', [1])) = Inr [4/5]"
proof
  show "map_sum id fst (step (opt\<lparr>weight_decay := wd, flag_weight_decay := f\<rparr>) g (x, w))
     = map_sum id fst (step opt g (x, w))"
    by (rule step_value_independent_of_weight_decay)
  show "map_sum id fst
       (case SGD_init (1/10) (Number (1/2)) (Number (9/10)) False of
          Inl e \<Rightarrow> Inl e
        | Inr opt0 \<Rightarrow> step opt0 [2] (''w'', [1])) = Inr [4/5]"
    by (simp add: SGD_init_def step_def resource_apply_dense_def prepare_local_def Let_def
          create_slots_def add_slot_def resource_apply_keras_momentum_def)
qed

text \<open>
  Claim C2. The claim: construction succeeds for momentum and weight decay in \<open>[0,1]\<close> and
  fails when either is outside. The code: construction fails exactly when \<open>momentum\<close> is a
  number outside \<open>[0,1]\<close>; \<open>weight_decay\<close> is never range-checked, so \<open>weight_decay = 2\<close> and
  \<open>weight_decay = -1\<close> (with momentum 0.5) are accepted.
\<close>

theorem C2_weight_decay_not_validated:
  "isl (SGD_init lr wd mom nest) = out_of_unit_range mom
   \<and> \<not> isl (SGD_init (1/100) (Number 2) (Number (1/2)) False)
   \<and> \<not> isl (SGD_init (1/100) (Number (-1)) (Number (1/2)) False)"
  by (simp add: SGD_init_def)

text \<open>
  The momentum step as the code performs it, with the gradient passed in: from a freshly
  constructed optimizer with momentum \<open>m\<close> in \<open>(0,1]\<close> and Nesterov off, the first step on
  a variable finds its velocity zero-initialised, sets \<open>v1 = m * 0 - lr * g1\<close> and
  \<open>w1 = w + v1\<close>; the second step sets \<open>v2 = m * v1 - lr * g2\<close> and \<open>w2 = w1 + v2\<close>,
  whatever the weight decay is. With weight decay 0 this is the worked example of the
  specification (learning rate 0.1, momentum 0.9, gradient 2): velocity -0.2 then -0.38,
  the variable decreased by 0.2 then by 0.58 in total.
\<close>

lemma momentum_update_two_steps:
  assumes init: "SGD_init lr wd (Number m) False = Inr opt0"
    and m: "0 < m"
    and len: "length g1 = length w" "length g2 = length w"
  shows "\<exists>opt1 opt2 v1 v2 w1 w2.
      v1 = map2 (\<lambda>a gi. a * m - lr * gi) (replicate (length w) 0) g1
    \<and> w1 = map2 (+) w v1
    \<and> step opt0 g1 (x, w) = Inr (w1, opt1)
    \<and> slots opt1 (x, ''momentum'') = Some v1
    \<and> v2 = map2 (\<lambda>a gi. a * m - lr * gi) v1 g2
    \<and> w2 = map2 (+) w1 v2
    \<and> step opt1 g2 (x, w1) = Inr (w2, opt2)
    \<and> slots opt2 (x, ''momentum'') = Some v2"
proof -
  define v1 where "v1 = map2 (\<lambda>a gi. a * m - lr * gi) (replicate (length w) 0) g1"
  define w1 where "w1 = map2 (+) w v1"
  define v2 where "v2 = map2 (\<lambda>a gi. a * m - lr * gi) v1 g2"
  define w2 where "w2 = map2 (+) w1 v2"
  define c0 where "c0 = create_slots [(x, w)] opt0"
  define opt1 where "opt1 = c0 \<lparr> slots := (slots c0)((x, ''momentum'') \<mapsto> v1) \<rparr>"
  define c1 where "c1 = create_slots [(x, w1)] opt1"
  define opt2 where "opt2 = c1 \<lparr> slots := (slots c1)((x, ''momentum'') \<mapsto> v2) \<rparr>"
  from init have opt0: "flag_momentum opt0" "\<not> nesterov opt0" "slots opt0 = Map.empty"
    "hyper_value (momentum opt0) = m" "learning_rate opt0 = lr"
    using m by (auto simp: SGD_init_def split: if_splits)
  have s0: "slots c0 (x, ''momentum'') = Some (replicate (length w) 0)"
    unfolding c0_def using opt0 by (simp add: create_slots_momentum_slot)
  have step1: "step opt0 g1 (x, w) = Inr (w1, opt1)"
    using step_momentum_rule [OF opt0(1) opt0(2) s0 [unfolded c0_def], of g1] len opt0
    by (simp add: w1_def v1_def opt1_def c0_def)
  have opt1: "flag_momentum opt1" "\<not> nesterov opt1"
    "hyper_value (momentum opt1) = m" "learning_rate opt1 = lr"
    using opt0 by (simp_all add: opt1_def c0_def)
  have sl1: "slots opt1 (x, ''momentum'') = Some v1"
    by (simp add: opt1_def)
  have lv1: "length v1 = length w1" "length g2 = length w1"
    using len by (simp_all add: v1_def w1_def)
  have s1: "slots c1 (x, ''momentum'') = Some v1"
    unfolding c1_def using opt1 sl1 by (simp add: create_slots_momentum_slot)
  have step2: "step opt1 g2 (x, w1) = Inr (w2, opt2)"
    using step_momentum_rule [OF opt1(1) opt1(2) s1 [unfolded c1_def] lv1] opt1
    by (simp add: w2_def v2_def opt2_def c1_def)
  have sl2: "slots opt2 (x, ''momentum'') = Some v2"
    by (simp add: opt2_def)
  show ?thesis
    using step1 sl1 step2 sl2 v1_def w1_def v2_def w2_def by blast
qed

lemma momentum_update_worked_example:
  "SGD_init (1/10) (Number 0) (Number (9/10)) False
     = Inr \<lparr> learning_rate = 1/10, weight_decay = Number 0, momentum = Number (9/10),
             flag_weight_decay = False, flag_momentum = True, nesterov = False,
             slots = Map.empty \<rparr>
   \<and> (0::real) < 9/10
   \<and> (\<exists>opt1 opt2.
        step \<lparr> learning_rate = 1/10, weight_decay = Number 0, momentum = Number (9/10),
               flag_weight_decay = False, flag_momentum = True, nesterov = False,
               slots = Map.empty \<rparr> [2] (''w'', [1]) = Inr ([4/5], opt1)
      \<and> slots opt1 (''w'', ''momentum'') = Some [- (1/5)]
      \<and> step opt1 [2] (''w'', [4/5]) = Inr ([21/50], opt2)
      \<and> slots opt2 (''w'', ''momentum'') = Some [- (19/50)])"
proof -
  have i: "SGD_init (1/10) (Number 0) (Number (9/10)) False
     = Inr \<lparr> learning_rate = 1/10, weight_decay = Number 0, momentum = Number (9/10),
             flag_weight_decay = False, flag_momentum = True, nesterov = False,
             slots = Map.empty \<rparr>"
    by (simp add: SGD_init_def)
  have m: "(0::real) < 9/10" by simp
  show ?thesis
    using momentum_update_two_steps [OF i m, of "[2]" "[1]" "[2]" "''w''"] i
    by simp
qed

text \<open>
  Claim C3. The claim: each step sets \<open>v \<leftarrow> momentum * v - learning_rate * g'\<close>, where
  \<open>g' = g + weight_decay * w\<close> is the decayed gradient, and applies \<open>w \<leftarrow> w + v\<close>. The code:
  with learning rate 0.1, momentum 0.9, weight decay 0.5, \<open>w = 1\<close> and \<open>g = 2\<close> the first
  step leaves the velocity at \<open>-0.2\<close> and the variable at \<open>0.8\<close>, where the claim's rule
  gives \<open>0.9 * 0 - 0.1 * (2 + 0.5 * 1) = -0.25\<close> and \<open>0.75\<close>: the step uses the raw
  gradient.
\<close>

theorem C3_momentum_step_uses_raw_gradient:
  "(case SGD_init (1/10) (Number (1/2)) (Number (9/10)) False of
      Inl e \<Rightarrow> False
    | Inr opt0 \<Rightarrow>
        (case step opt0 [2] (''w'', [1]) of
           Inl e \<Rightarrow> False
         | Inr (w1, opt1) \<Rightarrow>
             slots opt1 (''w'', ''momentum'') = Some [- (1/5)] \<and> w1 = [4/5]))
   \<and> (- (1/5) :: real) \<noteq> 9/10 * 0 - 1/10 * (2 + 1/2 * 1)
   \<and> (4/5 :: real) \<noteq> 1 + (9/10 * 0 - 1/10 * (2 + 1/2 * 1))"
  by (simp add: SGD_init_def step_def resource_apply_dense_def prepare_local_def Let_def
        create_slots_def add_slot_def resource_apply_keras_momentum_def)

section \<open>Properties of the augmentation worker\<close>

lemma slice2_fields:
  "height (slice2 rows cols img) = snd (slice_bounds rows (height img))"
  "width (slice2 rows cols img) = snd (slice_bounds cols (width img))"
  "pix (slice2 rows cols img) r c =
     pix img (fst (slice_bounds rows (height img)) + r) (fst (slice_bounds cols (width img)) + c)"
  by (simp_all add: slice2_def Let_def split: prod.splits)

lemma image_cropping_eval_256:
  assumes "height img = 256" "width img = 256"
  shows "image_cropping img False rnd =
     Inr [tf_subtract (slice2 (None, Some 227) (None, Some 227) img) IMAGENET_MEAN,
          tf_subtract (slice2 (Some 29, None) (None, Some 227) img) IMAGENET_MEAN,
          tf_subtract (slice2 (None, Some 227) (Some 29, None) img) IMAGENET_MEAN,
          tf_subtract (slice2 (Some 29, None) (Some 29, None) img) IMAGENET_MEAN,
          tf_subtract (slice2 (Some 15, Some 242) (Some 15, Some 242) img) IMAGENET_MEAN,
          tf_subtract (slice2 (None, Some 227) (None, Some 227) (flip_left_right img)) IMAGENET_MEAN,
          tf_subtract (slice2 (Some 29, None) (None, Some 227) (flip_left_right img)) IMAGENET_MEAN,
          tf_subtract (slice2 (None, Some 227) (Some 29, None) (flip_left_right img)) IMAGENET_MEAN,
          tf_subtract (slice2 (Some 29, None) (Some 29, None) (flip_left_right img)) IMAGENET_MEAN,
          tf_subtract (slice2 (Some 15, Some 242) (Some 15, Some 242) (flip_left_right img)) IMAGENET_MEAN]"
  using assms
  by (simp add: image_cropping_def Let_def tf_stack_def tf_subtract_def slice2_def
        slice_bounds_def flip_left_right_def)

lemma image_cropping_eval_small:
  assumes "0 < height img" "0 < width img" "height img < 227 \<or> width img < 227"
  shows "image_cropping img False rnd = Inl InvalidArgumentError"
  using assms
  by (auto simp add: image_cropping_def Let_def tf_stack_def tf_subtract_def slice2_fields
        slice_bounds_def flip_left_right_def min_def)

lemma image_cropping_train_small:
  assumes "height img < 227 \<or> width img < 227"
  shows "image_cropping img True rnd = Inl InvalidArgumentError"
  using assms
  by (auto simp add: image_cropping_def Let_def random_crop_def INPUT_IMAGE_SIZE_def flip_left_right_def)

lemma image_cropping_train_ok:
  assumes "227 \<le> height img" "227 \<le> width img"
  shows "image_cropping img True rnd =
     Inr [tf_subtract \<lparr> height = 227, width = 227,
             pix = \<lambda>r c. pix img (fst (fst rnd) mod (height img - 227 + 1) + r)
                                 (snd (fst rnd) mod (width img - 227 + 1) + c) \<rparr> IMAGENET_MEAN,
          tf_subtract \<lparr> height = 227, width = 227,
             pix = \<lambda>r c. pix (flip_left_right img) (fst (snd rnd) mod (height img - 227 + 1) + r)
                                 (snd (snd rnd) mod (width img - 227 + 1) + c) \<rparr> IMAGENET_MEAN]"
  using assms
  by (simp add: image_cropping_def Let_def random_crop_def INPUT_IMAGE_SIZE_def flip_left_right_def tf_stack_def tf_subtract_def)

lemma image_cropping_error_kind:
  "image_cropping img train rnd = Inl e \<Longrightarrow> e = InvalidArgumentError"
  by (auto simp add: image_cropping_def Let_def random_crop_def tf_stack_def
        split: if_splits sum.splits)

lemma preprocess_loop_ok:
  assumes "\<forall>i\<in>set idx. i < length images \<and> image_cropping (images ! i) train (rnd i) = Inr (f i)"
  shows "preprocess_loop images labels train rnd idx acc =
     Inr (fst acc @ concat (map f idx),
          snd acc @ concat (map (\<lambda>i. replicate (length (f i)) (labels ! i)) idx))"
  using assms
  by (induction idx arbitrary: acc) simp_all

lemma preprocess_loop_error_kind:
  "preprocess_loop images labels train rnd idx acc = Inl e \<Longrightarrow> e = InvalidArgumentError"
  by (induction idx arbitrary: acc)
     (auto split: if_splits sum.splits dest: image_cropping_error_kind)

lemma preprocess_loop_fail:
  assumes "i \<in> set idx" "image_cropping (images ! i) train (rnd i) = Inl e"
  shows "preprocess_loop images labels train rnd idx acc = Inl InvalidArgumentError"
  using assms
proof (induction idx arbitrary: acc)
  case Nil
  then show ?case by simp
next
  case (Cons j idx)
  show ?case
  proof (cases "preprocess_loop images labels train rnd (j # idx) acc")
    case (Inl e')
    then show ?thesis using preprocess_loop_error_kind by blast
  next
    case (Inr r)
    then have j: "j < length images" "\<not> isl (image_cropping (images ! j) train (rnd j))"
      by (auto split: if_splits sum.splits)
    with Cons.prems have "i \<in> set idx" by auto
    from Cons.IH [OF this Cons.prems(2)] Inr j show ?thesis
      by (auto split: if_splits sum.splits)
  qed
qed

lemma concat_blocks_length:
  "\<forall>i<n. length (f i) = k \<Longrightarrow> length (concat (map f [0..<n])) = n * k"
  by (induction n) simp_all

lemma concat_blocks_nth:
  assumes "\<forall>i<n. length (f i) = k" "i < n" "j < k"
  shows "concat (map f [0..<n]) ! (k * i + j) = f i ! j"
  using assms
proof (induction n)
  case 0
  then show ?case by simp
next
  case (Suc n)
  have len: "length (concat (map f [0..<n])) = n * k"
    using Suc.prems(1) by (simp add: concat_blocks_length)
  show ?case
  proof (cases "i < n")
    case True
    then have "Suc i \<le> n" by simp
    then have "k * Suc i \<le> k * n" by (rule mult_le_mono2)
    with Suc.prems(3) have "k * i + j < n * k" by (simp add: mult.commute)
    with Suc True len show ?thesis by (simp add: nth_append)
  next
    case False
    with Suc.prems(2) have "i = n" by simp
    with len Suc.prems(3) show ?thesis by (simp add: nth_append mult.commute)
  qed
qed

text \<open>
  Claim C6. In training mode, for a batch of \<open>N\<close> images (with as many labels) that are
  all at least 227 by 227, the worker posts exactly \<open>2N\<close> images and \<open>2N\<close> labels; the
  labels at \<open>2i\<close> and \<open>2i+1\<close> are the label of image \<open>i\<close>; image \<open>2i\<close> is 227 by 227 and
  its pixel at \<open>(r, c)\<close> is the pixel of image \<open>i\<close> at a random offset plus \<open>(r, c)\<close>, with
  the mean vector (122.10927936917298, 116.5416959998387, 102.61744377213829) subtracted
  channel by channel; image \<open>2i+1\<close> is the same, at another random offset, of the
  horizontal mirror of image \<open>i\<close>.
\<close>

theorem C6_training_augmentation:
  assumes len: "length images = length labels"
    and big: "\<forall>i<length labels. 227 \<le> height (images ! i) \<and> 227 \<le> width (images ! i)"
  shows "\<exists>test_images test_labels.
      img_preprocessing q0 images labels True rnd = Inr (q0 @ [(test_images, test_labels)])
    \<and> length test_images = 2 * length labels
    \<and> length test_labels = 2 * length labels
    \<and> (\<forall>i<length labels.
          test_labels ! (2 * i) = labels ! i
        \<and> test_labels ! (2 * i + 1) = labels ! i
        \<and> height (test_images ! (2 * i)) = 227 \<and> width (test_images ! (2 * i)) = 227
        \<and> height (test_images ! (2 * i + 1)) = 227 \<and> width (test_images ! (2 * i + 1)) = 227
        \<and> (\<forall>r c. pix (test_images ! (2 * i)) r c =
               (case pix (images ! i) (fst (fst (rnd i)) mod (height (images ! i) - 227 + 1) + r) (snd (fst (rnd i)) mod (width (images ! i) - 227 + 1) + c) of
                  (pr, pg, pb) \<Rightarrow>
                    (pr - 122.10927936917298, pg - 116.5416959998387, pb - 102.61744377213829)))
        \<and> (\<forall>r c. pix (test_images ! (2 * i + 1)) r c =
               (case pix (images ! i) (fst (snd (rnd i)) mod (height (images ! i) - 227 + 1) + r)
                  (width (images ! i) - 1 - (snd (snd (rnd i)) mod (width (images ! i) - 227 + 1) + c)) of
                  (pr, pg, pb) \<Rightarrow>
                    (pr - 122.10927936917298, pg - 116.5416959998387, pb - 102.61744377213829))))"
proof -
  define A where "A i = tf_subtract \<lparr> height = 227, width = 227,
              pix = \<lambda>r c. pix (images ! i)
                      (fst (fst (rnd i)) mod (height (images ! i) - 227 + 1) + r)
                      (snd (fst (rnd i)) mod (width (images ! i) - 227 + 1) + c) \<rparr>
              IMAGENET_MEAN" for i
  define B where "B i = tf_subtract \<lparr> height = 227, width = 227,
              pix = \<lambda>r c. pix (images ! i)
                      (fst (snd (rnd i)) mod (height (images ! i) - 227 + 1) + r)
                      (width (images ! i) - 1
                        - (snd (snd (rnd i)) mod (width (images ! i) - 227 + 1) + c)) \<rparr>
              IMAGENET_MEAN" for i
  define f where "f = (\<lambda>i. [A i, B i])"
  define g where "g = (\<lambda>i. replicate (length (f i)) (labels ! i))"
  let ?n = "length labels"
  have crop: "\<forall>i\<in>set [0..<?n]. i < length images
                \<and> image_cropping (images ! i) True (rnd i) = Inr (f i)"
    using big len
    by (auto simp: image_cropping_train_ok f_def A_def B_def flip_left_right_def)
  have loop: "preprocess_loop images labels True rnd [0..<?n] ([], []) =
      Inr (concat (map f [0..<?n]), concat (map g [0..<?n]))"
    using preprocess_loop_ok [OF crop, of labels "([], [])"] by (simp add: g_def)
  have run: "img_preprocessing q0 images labels True rnd =
      Inr (q0 @ [(concat (map f [0..<?n]), concat (map g [0..<?n]))])"
    by (simp add: img_preprocessing_def loop)
  have lf: "\<forall>i<?n. length (f i) = 2" and lg: "\<forall>i<?n. length (g i) = 2"
    by (simp_all add: f_def g_def)
  have l1: "length (concat (map f [0..<?n])) = 2 * ?n"
    using concat_blocks_length [OF lf] by (simp add: mult.commute)
  have l2: "length (concat (map g [0..<?n])) = 2 * ?n"
    using concat_blocks_length [OF lg] by (simp add: mult.commute)
  have nth: "concat (map g [0..<?n]) ! (2 * i) = labels ! i
           \<and> concat (map g [0..<?n]) ! (2 * i + 1) = labels ! i
           \<and> concat (map f [0..<?n]) ! (2 * i) = A i
           \<and> concat (map f [0..<?n]) ! (2 * i + 1) = B i" if "i < ?n" for i
    using concat_blocks_nth [OF lf that, of 0] concat_blocks_nth [OF lf that, of 1]
      concat_blocks_nth [OF lg that, of 0] concat_blocks_nth [OF lg that, of 1]
    by (simp add: f_def g_def)
  have nth':
    "concat (map g [0..<?n]) ! (2 * i) = labels ! i
        \<and> concat (map g [0..<?n]) ! (2 * i + 1) = labels ! i
        \<and> height (concat (map f [0..<?n]) ! (2 * i)) = 227 \<and> width (concat (map f [0..<?n]) ! (2 * i)) = 227
        \<and> height (concat (map f [0..<?n]) ! (2 * i + 1)) = 227 \<and> width (concat (map f [0..<?n]) ! (2 * i + 1)) = 227
        \<and> (\<forall>r c. pix (concat (map f [0..<?n]) ! (2 * i)) r c =
               (case pix (images ! i) (fst (fst (rnd i)) mod (height (images ! i) - 227 + 1) + r) (snd (fst (rnd i)) mod (width (images ! i) - 227 + 1) + c) of
                  (pr, pg, pb) \<Rightarrow>
                    (pr - 122.10927936917298, pg - 116.5416959998387, pb - 102.61744377213829)))
        \<and> (\<forall>r c. pix (concat (map f [0..<?n]) ! (2 * i + 1)) r c =
               (case pix (images ! i) (fst (snd (rnd i)) mod (height (images ! i) - 227 + 1) + r)
                  (width (images ! i) - 1 - (snd (snd (rnd i)) mod (width (images ! i) - 227 + 1) + c)) of
                  (pr, pg, pb) \<Rightarrow>
                    (pr - 122.10927936917298, pg - 116.5416959998387, pb - 102.61744377213829)))"
    if "i < ?n" for i
    using nth [OF that]
    by (simp add: A_def B_def tf_subtract_def IMAGENET_MEAN_def split: prod.splits)
  show ?thesis
    using run l1 l2 nth' by blast
qed

theorem C6_training_augmentation_witness:
  "\<exists>test_images test_labels.
      img_preprocessing []
        [\<lparr> height = 256, width = 256, pix = \<lambda>r c. (real r, real c, 0) \<rparr>,
         \<lparr> height = 300, width = 227, pix = \<lambda>r c. (1, 2, 3) \<rparr>]
        [7, 3] True (\<lambda>i. ((5, 40), (1000, 2)))
        = Inr [(test_images, test_labels)]
    \<and> length test_images = 4
    \<and> length test_labels = 4
    \<and> test_labels ! 0 = 7 \<and> test_labels ! 1 = 7
    \<and> test_labels ! 2 = 3 \<and> test_labels ! 3 = 3
    \<and> height (test_images ! 0) = 227 \<and> width (test_images ! 1) = 227
    \<and> pix (test_images ! 0) 0 0
        = (5 - 122.10927936917298, 10 - 116.5416959998387, 0 - 102.61744377213829)
    \<and> pix (test_images ! 1) 0 0
        = (10 - 122.10927936917298, 253 - 116.5416959998387, 0 - 102.61744377213829)
    \<and> pix (test_images ! 2) 3 4
        = (1 - 122.10927936917298, 2 - 116.5416959998387, 3 - 102.61744377213829)"
proof -
  let ?images = "[\<lparr> height = 256, width = 256, pix = \<lambda>r c. (real r, real c, 0) \<rparr>,
         \<lparr> height = 300, width = 227, pix = \<lambda>r c. (1, 2, 3) \<rparr>]"
  let ?rnd = "\<lambda>i::nat. ((5::nat, 40::nat), (1000::nat, 2::nat))"
  have len: "length ?images = length [7, 3 :: int]" by simp
  have big: "\<forall>i<length [7, 3 :: int]. 227 \<le> height (?images ! i) \<and> 227 \<le> width (?images ! i)"
    by (simp add: less_Suc_eq)
  from C6_training_augmentation [OF len big, of "[]" ?rnd]
  obtain ti tl where
    run: "img_preprocessing [] ?images [7, 3] True ?rnd = Inr ([] @ [(ti, tl)])"
    and l: "length ti = 2 * length [7, 3 :: int]" "length tl = 2 * length [7, 3 :: int]"
    and nth: "\<forall>i<length [7, 3 :: int].
          tl ! (2 * i) = [7, 3] ! i
        \<and> tl ! (2 * i + 1) = [7, 3] ! i
        \<and> height (ti ! (2 * i)) = 227 \<and> width (ti ! (2 * i)) = 227
        \<and> height (ti ! (2 * i + 1)) = 227 \<and> width (ti ! (2 * i + 1)) = 227
        \<and> (\<forall>r c. pix (ti ! (2 * i)) r c =
               (case pix (?images ! i) (fst (fst (?rnd i)) mod (height (?images ! i) - 227 + 1) + r) (snd (fst (?rnd i)) mod (width (?images ! i) - 227 + 1) + c) of
                  (pr, pg, pb) \<Rightarrow>
                    (pr - 122.10927936917298, pg - 116.5416959998387, pb - 102.61744377213829)))
        \<and> (\<forall>r c. pix (ti ! (2 * i + 1)) r c =
               (case pix (?images ! i) (fst (snd (?rnd i)) mod (height (?images ! i) - 227 + 1) + r)
                  (width (?images ! i) - 1 - (snd (snd (?rnd i)) mod (width (?images ! i) - 227 + 1) + c)) of
                  (pr, pg, pb) \<Rightarrow>
                    (pr - 122.10927936917298, pg - 116.5416959998387, pb - 102.61744377213829)))"
    by blast
  from nth [rule_format, of 0] nth [rule_format, of 1] run l
  show ?thesis
    by (intro exI [of _ ti] exI [of _ tl]) simp
qed

lemma less_5_cases: "k < (5::nat) \<Longrightarrow> k = 0 \<or> k = 1 \<or> k = 2 \<or> k = 3 \<or> k = 4"
  by arith

lemma eval_variants_nth:
  assumes dim: "height img = 256" "width img = 256" and k: "k < 5"
  shows
   "[tf_subtract (slice2 (None, Some 227) (None, Some 227) img) IMAGENET_MEAN,
     tf_subtract (slice2 (Some 29, None) (None, Some 227) img) IMAGENET_MEAN,
     tf_subtract (slice2 (None, Some 227) (Some 29, None) img) IMAGENET_MEAN,
     tf_subtract (slice2 (Some 29, None) (Some 29, None) img) IMAGENET_MEAN,
     tf_subtract (slice2 (Some 15, Some 242) (Some 15, Some 242) img) IMAGENET_MEAN,
     tf_subtract (slice2 (None, Some 227) (None, Some 227) (flip_left_right img)) IMAGENET_MEAN,
     tf_subtract (slice2 (Some 29, None) (None, Some 227) (flip_left_right img)) IMAGENET_MEAN,
     tf_subtract (slice2 (None, Some 227) (Some 29, None) (flip_left_right img)) IMAGENET_MEAN,
     tf_subtract (slice2 (Some 29, None) (Some 29, None) (flip_left_right img)) IMAGENET_MEAN,
     tf_subtract (slice2 (Some 15, Some 242) (Some 15, Some 242) (flip_left_right img)) IMAGENET_MEAN]
      ! k =
      tf_subtract \<lparr> height = INPUT_IMAGE_SIZE, width = INPUT_IMAGE_SIZE,
        pix = \<lambda>r c. pix img
          (fst ([(0, 0), (height img - INPUT_IMAGE_SIZE, 0), (0, width img - INPUT_IMAGE_SIZE),
                 (height img - INPUT_IMAGE_SIZE, width img - INPUT_IMAGE_SIZE),
                 ((height img - INPUT_IMAGE_SIZE + 1) div 2,
                  (width img - INPUT_IMAGE_SIZE + 1) div 2)] ! k) + r)
          (snd ([(0, 0), (height img - INPUT_IMAGE_SIZE, 0), (0, width img - INPUT_IMAGE_SIZE),
                 (height img - INPUT_IMAGE_SIZE, width img - INPUT_IMAGE_SIZE),
                 ((height img - INPUT_IMAGE_SIZE + 1) div 2,
                  (width img - INPUT_IMAGE_SIZE + 1) div 2)] ! k) + c) \<rparr> IMAGENET_MEAN"
  (is "?L ! k = ?A")
  and
   "[tf_subtract (slice2 (None, Some 227) (None, Some 227) img) IMAGENET_MEAN,
     tf_subtract (slice2 (Some 29, None) (None, Some 227) img) IMAGENET_MEAN,
     tf_subtract (slice2 (None, Some 227) (Some 29, None) img) IMAGENET_MEAN,
     tf_subtract (slice2 (Some 29, None) (Some 29, None) img) IMAGENET_MEAN,
     tf_subtract (slice2 (Some 15, Some 242) (Some 15, Some 242) img) IMAGENET_MEAN,
     tf_subtract (slice2 (None, Some 227) (None, Some 227) (flip_left_right img)) IMAGENET_MEAN,
     tf_subtract (slice2 (Some 29, None) (None, Some 227) (flip_left_right img)) IMAGENET_MEAN,
     tf_subtract (slice2 (None, Some 227) (Some 29, None) (flip_left_right img)) IMAGENET_MEAN,
     tf_subtract (slice2 (Some 29, None) (Some 29, None) (flip_left_right img)) IMAGENET_MEAN,
     tf_subtract (slice2 (Some 15, Some 242) (Some 15, Some 242) (flip_left_right img)) IMAGENET_MEAN]
      ! (5 + k) =
      tf_subtract \<lparr> height = INPUT_IMAGE_SIZE, width = INPUT_IMAGE_SIZE,
        pix = \<lambda>r c. pix img
          (fst ([(0, 0), (height img - INPUT_IMAGE_SIZE, 0), (0, width img - INPUT_IMAGE_SIZE),
                 (height img - INPUT_IMAGE_SIZE, width img - INPUT_IMAGE_SIZE),
                 ((height img - INPUT_IMAGE_SIZE + 1) div 2,
                  (width img - INPUT_IMAGE_SIZE + 1) div 2)] ! k) + r)
          (width img - 1 -
           (snd ([(0, 0), (height img - INPUT_IMAGE_SIZE, 0), (0, width img - INPUT_IMAGE_SIZE),
                 (height img - INPUT_IMAGE_SIZE, width img - INPUT_IMAGE_SIZE),
                 ((height img - INPUT_IMAGE_SIZE + 1) div 2,
                  (width img - INPUT_IMAGE_SIZE + 1) div 2)] ! k) + c)) \<rparr> IMAGENET_MEAN"
  using less_5_cases [OF k] dim
  by (auto simp add: slice2_def slice_bounds_def flip_left_right_def tf_subtract_def
        INPUT_IMAGE_SIZE_def)

lemma image_cropping_eval_other:
  assumes "0 < height img" "0 < width img" "height img \<noteq> 256 \<or> width img \<noteq> 256"
  shows "image_cropping img False rnd = Inl InvalidArgumentError"
  using assms
  by (auto simp add: image_cropping_def Let_def tf_stack_def tf_subtract_def slice2_fields
        slice_bounds_def flip_left_right_def min_def)

text \<open>
  Claim C5, as amended. In evaluation mode, for a batch of \<open>N\<close> images of 256 by 256 (with
  as many labels), the worker posts exactly \<open>10N\<close> images and \<open>10N\<close> labels in blocks of
  10 per source image, each image of the input size 227 by 227: five crops of the image
  followed by the same five crops of its horizontal mirror, the mean vector
  (122.10927936917298, 116.5416959998387, 102.61744377213829) subtracted from every
  pixel channel by channel. The offsets of the five crops are 0 or the dimension minus the
  crop size (29) on each axis, and for the centre crop half of that value rounded up (15).
\<close>

theorem C5_evaluation_augmentation:
  assumes len: "length images = length labels"
    and dim: "\<forall>i<length labels. height (images ! i) = 256 \<and> width (images ! i) = 256"
  shows "\<exists>test_images test_labels.
      img_preprocessing q0 images labels False rnd = Inr (q0 @ [(test_images, test_labels)])
    \<and> length test_images = 10 * length labels
    \<and> length test_labels = 10 * length labels
    \<and> (\<forall>i<length labels.
         (\<forall>k<10. test_labels ! (10 * i + k) = labels ! i)
       \<and> (\<forall>k<10. height (test_images ! (10 * i + k)) = INPUT_IMAGE_SIZE
                  \<and> width (test_images ! (10 * i + k)) = INPUT_IMAGE_SIZE)
       \<and> (\<forall>k<5.
            (\<forall>r c. pix (test_images ! (10 * i + k)) r c =
               (case pix (images ! i)
                  (fst ([(0, 0),
                         (height (images ! i) - INPUT_IMAGE_SIZE, 0),
                         (0, width (images ! i) - INPUT_IMAGE_SIZE),
                         (height (images ! i) - INPUT_IMAGE_SIZE,
                          width (images ! i) - INPUT_IMAGE_SIZE),
                         ((height (images ! i) - INPUT_IMAGE_SIZE + 1) div 2,
                          (width (images ! i) - INPUT_IMAGE_SIZE + 1) div 2)] ! k) + r)
                  (snd ([(0, 0),
                         (height (images ! i) - INPUT_IMAGE_SIZE, 0),
                         (0, width (images ! i) - INPUT_IMAGE_SIZE),
                         (height (images ! i) - INPUT_IMAGE_SIZE,
                          width (images ! i) - INPUT_IMAGE_SIZE),
                         ((height (images ! i) - INPUT_IMAGE_SIZE + 1) div 2,
                          (width (images ! i) - INPUT_IMAGE_SIZE + 1) div 2)] ! k) + c) of
                  (pr, pg, pb) \<Rightarrow>
                    (pr - 122.10927936917298, pg - 116.5416959998387, pb - 102.61744377213829)))
          \<and> (\<forall>r c. pix (test_images ! (10 * i + (5 + k))) r c =
               (case pix (images ! i)
                  (fst ([(0, 0),
                         (height (images ! i) - INPUT_IMAGE_SIZE, 0),
                         (0, width (images ! i) - INPUT_IMAGE_SIZE),
                         (height (images ! i) - INPUT_IMAGE_SIZE,
                          width (images ! i) - INPUT_IMAGE_SIZE),
                         ((height (images ! i) - INPUT_IMAGE_SIZE + 1) div 2,
                          (width (images ! i) - INPUT_IMAGE_SIZE + 1) div 2)] ! k) + r)
                  (width (images ! i) - 1 -
                   (snd ([(0, 0),
                         (height (images ! i) - INPUT_IMAGE_SIZE, 0),
                         (0, width (images ! i) - INPUT_IMAGE_SIZE),
                         (height (images ! i) - INPUT_IMAGE_SIZE,
                          width (images ! i) - INPUT_IMAGE_SIZE),
                         ((height (images ! i) - INPUT_IMAGE_SIZE + 1) div 2,
                          (width (images ! i) - INPUT_IMAGE_SIZE + 1) div 2)] ! k) + c)) of
                  (pr, pg, pb) \<Rightarrow>
                    (pr - 122.10927936917298, pg - 116.5416959998387, pb - 102.61744377213829)))))"
proof -
  define f where "f = (\<lambda>i.
    [tf_subtract (slice2 (None, Some 227) (None, Some 227) (images ! i)) IMAGENET_MEAN,
     tf_subtract (slice2 (Some 29, None) (None, Some 227) (images ! i)) IMAGENET_MEAN,
     tf_subtract (slice2 (None, Some 227) (Some 29, None) (images ! i)) IMAGENET_MEAN,
     tf_subtract (slice2 (Some 29, None) (Some 29, None) (images ! i)) IMAGENET_MEAN,
     tf_subtract (slice2 (Some 15, Some 242) (Some 15, Some 242) (images ! i)) IMAGENET_MEAN,
     tf_subtract (slice2 (None, Some 227) (None, Some 227) (flip_left_right (images ! i))) IMAGENET_MEAN,
     tf_subtract (slice2 (Some 29, None) (None, Some 227) (flip_left_right (images ! i))) IMAGENET_MEAN,
     tf_subtract (slice2 (None, Some 227) (Some 29, None) (flip_left_right (images ! i))) IMAGENET_MEAN,
     tf_subtract (slice2 (Some 29, None) (Some 29, None) (flip_left_right (images ! i))) IMAGENET_MEAN,
     tf_subtract (slice2 (Some 15, Some 242) (Some 15, Some 242) (flip_left_right (images ! i))) IMAGENET_MEAN])"
  define g where "g = (\<lambda>i. replicate (length (f i)) (labels ! i))"
  let ?n = "length labels"
  have crop: "\<forall>i\<in>set [0..<?n]. i < length images
                \<and> image_cropping (images ! i) False (rnd i) = Inr (f i)"
    using dim len by (auto simp: image_cropping_eval_256 f_def)
  have loop: "preprocess_loop images labels False rnd [0..<?n] ([], []) =
      Inr (concat (map f [0..<?n]), concat (map g [0..<?n]))"
    using preprocess_loop_ok [OF crop, of labels "([], [])"] by (simp add: g_def)
  have run: "img_preprocessing q0 images labels False rnd =
      Inr (q0 @ [(concat (map f [0..<?n]), concat (map g [0..<?n]))])"
    by (simp add: img_preprocessing_def loop)
  have lf: "\<forall>i<?n. length (f i) = 10" and lg: "\<forall>i<?n. length (g i) = 10"
    by (simp_all add: f_def g_def)
  have l1: "length (concat (map f [0..<?n])) = 10 * ?n"
    using concat_blocks_length [OF lf] by (simp add: mult.commute)
  have l2: "length (concat (map g [0..<?n])) = 10 * ?n"
    using concat_blocks_length [OF lg] by (simp add: mult.commute)
  have labs: "concat (map g [0..<?n]) ! (10 * i + k) = labels ! i"
    if "i < ?n" "k < 10" for i k
  proof -
    from that lf have "k < length (f i)" by simp
    then have "g i ! k = labels ! i" by (simp only: g_def nth_replicate)
    with concat_blocks_nth [OF lg that] show ?thesis by simp
  qed
  have imgs: "concat (map f [0..<?n]) ! (10 * i + k) = f i ! k"
    if "i < ?n" "k < 10" for i k
    using concat_blocks_nth [OF lf that] .
  have d: "height (images ! i) = 256" "width (images ! i) = 256" if "i < ?n" for i
    using dim that by simp_all
  have im1: "concat (map f [0..<?n]) ! (10 * i + k) =
              tf_subtract \<lparr> height = INPUT_IMAGE_SIZE, width = INPUT_IMAGE_SIZE,
                pix = \<lambda>r c. pix (images ! i)
                  (fst ([(0, 0),
                         (height (images ! i) - INPUT_IMAGE_SIZE, 0),
                         (0, width (images ! i) - INPUT_IMAGE_SIZE),
                         (height (images ! i) - INPUT_IMAGE_SIZE,
                          width (images ! i) - INPUT_IMAGE_SIZE),
                         ((height (images ! i) - INPUT_IMAGE_SIZE + 1) div 2,
                          (width (images ! i) - INPUT_IMAGE_SIZE + 1) div 2)] ! k) + r)
                  (snd ([(0, 0),
                         (height (images ! i) - INPUT_IMAGE_SIZE, 0),
                         (0, width (images ! i) - INPUT_IMAGE_SIZE),
                         (height (images ! i) - INPUT_IMAGE_SIZE,
                          width (images ! i) - INPUT_IMAGE_SIZE),
                         ((height (images ! i) - INPUT_IMAGE_SIZE + 1) div 2,
                          (width (images ! i) - INPUT_IMAGE_SIZE + 1) div 2)] ! k) + c) \<rparr>
                IMAGENET_MEAN"
    if "i < ?n" "k < 5" for i k
  proof -
    from that have "concat (map f [0..<?n]) ! (10 * i + k) = f i ! k"
      by (intro imgs) simp_all
    also have "f i ! k =
              tf_subtract \<lparr> height = INPUT_IMAGE_SIZE, width = INPUT_IMAGE_SIZE,
                pix = \<lambda>r c. pix (images ! i)
                  (fst ([(0, 0),
                         (height (images ! i) - INPUT_IMAGE_SIZE, 0),
                         (0, width (images ! i) - INPUT_IMAGE_SIZE),
                         (height (images ! i) - INPUT_IMAGE_SIZE,
                          width (images ! i) - INPUT_IMAGE_SIZE),
                         ((height (images ! i) - INPUT_IMAGE_SIZE + 1) div 2,
                          (width (images ! i) - INPUT_IMAGE_SIZE + 1) div 2)] ! k) + r)
                  (snd ([(0, 0),
                         (height (images ! i) - INPUT_IMAGE_SIZE, 0),
                         (0, width (images ! i) - INPUT_IMAGE_SIZE),
                         (height (images ! i) - INPUT_IMAGE_SIZE,
                          width (images ! i) - INPUT_IMAGE_SIZE),
                         ((height (images ! i) - INPUT_IMAGE_SIZE + 1) div 2,
                          (width (images ! i) - INPUT_IMAGE_SIZE + 1) div 2)] ! k) + c) \<rparr>
                IMAGENET_MEAN"
      unfolding f_def by (rule eval_variants_nth(1) [OF d [OF that(1)] that(2)])
    finally show ?thesis .
  qed
  have im2: "concat (map f [0..<?n]) ! (10 * i + (5 + k)) =
              tf_subtract \<lparr> height = INPUT_IMAGE_SIZE, width = INPUT_IMAGE_SIZE,
                pix = \<lambda>r c. pix (images ! i)
                  (fst ([(0, 0),
                         (height (images ! i) - INPUT_IMAGE_SIZE, 0),
                         (0, width (images ! i) - INPUT_IMAGE_SIZE),
                         (height (images ! i) - INPUT_IMAGE_SIZE,
                          width (images ! i) - INPUT_IMAGE_SIZE),
                         ((height (images ! i) - INPUT_IMAGE_SIZE + 1) div 2,
                          (width (images ! i) - INPUT_IMAGE_SIZE + 1) div 2)] ! k) + r)
                  (width (images ! i) - 1 -
                   (snd ([(0, 0),
                         (height (images ! i) - INPUT_IMAGE_SIZE, 0),
                         (0, width (images ! i) - INPUT_IMAGE_SIZE),
                         (height (images ! i) - INPUT_IMAGE_SIZE,
                          width (images ! i) - INPUT_IMAGE_SIZE),
                         ((height (images ! i) - INPUT_IMAGE_SIZE + 1) div 2,
                          (width (images ! i) - INPUT_IMAGE_SIZE + 1) div 2)] ! k) + c)) \<rparr>
                IMAGENET_MEAN"
    if "i < ?n" "k < 5" for i k
  proof -
    from that have "concat (map f [0..<?n]) ! (10 * i + (5 + k)) = f i ! (5 + k)"
      by (intro imgs) simp_all
    also have "f i ! (5 + k) =
              tf_subtract \<lparr> height = INPUT_IMAGE_SIZE, width = INPUT_IMAGE_SIZE,
                pix = \<lambda>r c. pix (images ! i)
                  (fst ([(0, 0),
                         (height (images ! i) - INPUT_IMAGE_SIZE, 0),
                         (0, width (images ! i) - INPUT_IMAGE_SIZE),
                         (height (images ! i) - INPUT_IMAGE_SIZE,
                          width (images ! i) - INPUT_IMAGE_SIZE),
                         ((height (images ! i) - INPUT_IMAGE_SIZE + 1) div 2,
                          (width (images ! i) - INPUT_IMAGE_SIZE + 1) div 2)] ! k) + r)
                  (width (images ! i) - 1 -
                   (snd ([(0, 0),
                         (height (images ! i) - INPUT_IMAGE_SIZE, 0),
                         (0, width (images ! i) - INPUT_IMAGE_SIZE),
                         (height (images ! i) - INPUT_IMAGE_SIZE,
                          width (images ! i) - INPUT_IMAGE_SIZE),
                         ((height (images ! i) - INPUT_IMAGE_SIZE + 1) div 2,
                          (width (images ! i) - INPUT_IMAGE_SIZE + 1) div 2)] ! k) + c)) \<rparr>
                IMAGENET_MEAN"
      unfolding f_def by (rule eval_variants_nth(2) [OF d [OF that(1)] that(2)])
    finally show ?thesis .
  qed
  have sz: "height (concat (map f [0..<?n]) ! (10 * i + k)) = INPUT_IMAGE_SIZE
          \<and> width (concat (map f [0..<?n]) ! (10 * i + k)) = INPUT_IMAGE_SIZE"
    if "i < ?n" "k < 10" for i k
  proof -
    from that(2) have "k < 5 \<or> (\<exists>j<5. k = 5 + j)" by presburger
    then show ?thesis
      using im1 [OF that(1)] im2 [OF that(1)] by (auto simp: tf_subtract_def)
  qed
  have px1: "pix (concat (map f [0..<?n]) ! (10 * i + k)) r c =
               (case pix (images ! i)
                  (fst ([(0, 0),
                         (height (images ! i) - INPUT_IMAGE_SIZE, 0),
                         (0, width (images ! i) - INPUT_IMAGE_SIZE),
                         (height (images ! i) - INPUT_IMAGE_SIZE,
                          width (images ! i) - INPUT_IMAGE_SIZE),
                         ((height (images ! i) - INPUT_IMAGE_SIZE + 1) div 2,
                          (width (images ! i) - INPUT_IMAGE_SIZE + 1) div 2)] ! k) + r)
                  (snd ([(0, 0),
                         (height (images ! i) - INPUT_IMAGE_SIZE, 0),
                         (0, width (images ! i) - INPUT_IMAGE_SIZE),
                         (height (images ! i) - INPUT_IMAGE_SIZE,
                          width (images ! i) - INPUT_IMAGE_SIZE),
                         ((height (images ! i) - INPUT_IMAGE_SIZE + 1) div 2,
                          (width (images ! i) - INPUT_IMAGE_SIZE + 1) div 2)] ! k) + c) of
                  (pr, pg, pb) \<Rightarrow>
                    (pr - 122.10927936917298, pg - 116.5416959998387, pb - 102.61744377213829))"
    if "i < ?n" "k < 5" for i k r c
    by (simp add: im1 [OF that] tf_subtract_def IMAGENET_MEAN_def split: prod.splits)
  have px2: "pix (concat (map f [0..<?n]) ! (10 * i + (5 + k))) r c =
               (case pix (images ! i)
                  (fst ([(0, 0),
                         (height (images ! i) - INPUT_IMAGE_SIZE, 0),
                         (0, width (images ! i) - INPUT_IMAGE_SIZE),
                         (height (images ! i) - INPUT_IMAGE_SIZE,
                          width (images ! i) - INPUT_IMAGE_SIZE),
                         ((height (images ! i) - INPUT_IMAGE_SIZE + 1) div 2,
                          (width (images ! i) - INPUT_IMAGE_SIZE + 1) div 2)] ! k) + r)
                  (width (images ! i) - 1 -
                   (snd ([(0, 0),
                         (height (images ! i) - INPUT_IMAGE_SIZE, 0),
                         (0, width (images ! i) - INPUT_IMAGE_SIZE),
                         (height (images ! i) - INPUT_IMAGE_SIZE,
                          width (images ! i) - INPUT_IMAGE_SIZE),
                         ((height (images ! i) - INPUT_IMAGE_SIZE + 1) div 2,
                          (width (images ! i) - INPUT_IMAGE_SIZE + 1) div 2)] ! k) + c)) of
                  (pr, pg, pb) \<Rightarrow>
                    (pr - 122.10927936917298, pg - 116.5416959998387, pb - 102.61744377213829))"
    if "i < ?n" "k < 5" for i k r c
    by (simp add: im2 [OF that] tf_subtract_def IMAGENET_MEAN_def split: prod.splits)
  show ?thesis
    apply (intro exI [of _ "concat (map f [0..<?n])"] exI [of _ "concat (map g [0..<?n])"]
        conjI allI impI)
           apply (rule run)
          apply (rule l1)
         apply (rule l2)
        apply (rule labs; assumption)
       apply (rule sz [THEN conjunct1]; assumption)
      apply (rule sz [THEN conjunct2]; assumption)
     apply (rule px1; assumption)
    apply (rule px2; assumption)
    done
qed

theorem C5_evaluation_augmentation_witness:
  "\<exists>test_images test_labels.
      img_preprocessing []
        [\<lparr> height = 256, width = 256, pix = \<lambda>r c. (real r, real c, 0) \<rparr>] [4] False
        (\<lambda>i. ((0, 0), (0, 0)))
        = Inr [(test_images, test_labels)]
    \<and> length test_images = 10
    \<and> length test_labels = 10
    \<and> test_labels ! 0 = 4 \<and> test_labels ! 9 = 4
    \<and> height (test_images ! 4) = 227 \<and> width (test_images ! 4) = 227
    \<and> pix (test_images ! 1) 0 0
        = (29 - 122.10927936917298, 0 - 116.5416959998387, 0 - 102.61744377213829)
    \<and> pix (test_images ! 4) 0 0
        = (15 - 122.10927936917298, 15 - 116.5416959998387, 0 - 102.61744377213829)
    \<and> pix (test_images ! 9) 0 0
        = (15 - 122.10927936917298, 240 - 116.5416959998387, 0 - 102.61744377213829)"
proof -
  let ?images = "[\<lparr> height = 256, width = 256, pix = \<lambda>r c. (real r, real c, 0) \<rparr>]"
  let ?rnd = "\<lambda>i::nat. ((0::nat, 0::nat), (0::nat, 0::nat))"
  have len: "length ?images = length [4 :: int]" by simp
  have dim: "\<forall>i<length [4 :: int]. height (?images ! i) = 256 \<and> width (?images ! i) = 256"
    by simp
  from C5_evaluation_augmentation [OF len dim, of "[]" ?rnd]
  obtain ti tl where
    run: "img_preprocessing [] ?images [4] False ?rnd = Inr ([] @ [(ti, tl)])"
    and l: "length ti = 10 * length [4 :: int]" "length tl = 10 * length [4 :: int]"
    and nth: "\<forall>i<length [4 :: int].
         (\<forall>k<10. tl ! (10 * i + k) = [4] ! i)
       \<and> (\<forall>k<10. height (ti ! (10 * i + k)) = INPUT_IMAGE_SIZE
                  \<and> width (ti ! (10 * i + k)) = INPUT_IMAGE_SIZE)
       \<and> (\<forall>k<5.
            (\<forall>r c. pix (ti ! (10 * i + k)) r c =
               (case pix (?images ! i)
                  (fst ([(0, 0),
                         (height (?images ! i) - INPUT_IMAGE_SIZE, 0),
                         (0, width (?images ! i) - INPUT_IMAGE_SIZE),
                         (height (?images ! i) - INPUT_IMAGE_SIZE,
                          width (?images ! i) - INPUT_IMAGE_SIZE),
                         ((height (?images ! i) - INPUT_IMAGE_SIZE + 1) div 2,
                          (width (?images ! i) - INPUT_IMAGE_SIZE + 1) div 2)] ! k) + r)
                  (snd ([(0, 0),
                         (height (?images ! i) - INPUT_IMAGE_SIZE, 0),
                         (0, width (?images ! i) - INPUT_IMAGE_SIZE),
                         (height (?images ! i) - INPUT_IMAGE_SIZE,
                          width (?images ! i) - INPUT_IMAGE_SIZE),
                         ((height (?images ! i) - INPUT_IMAGE_SIZE + 1) div 2,
                          (width (?images ! i) - INPUT_IMAGE_SIZE + 1) div 2)] ! k) + c) of
                  (pr, pg, pb) \<Rightarrow>
                    (pr - 122.10927936917298, pg - 116.5416959998387, pb - 102.61744377213829)))
          \<and> (\<forall>r c. pix (ti ! (10 * i + (5 + k))) r c =
               (case pix (?images ! i)
                  (fst ([(0, 0),
                         (height (?images ! i) - INPUT_IMAGE_SIZE, 0),
                         (0, width (?images ! i) - INPUT_IMAGE_SIZE),
                         (height (?images ! i) - INPUT_IMAGE_SIZE,
                          width (?images ! i) - INPUT_IMAGE_SIZE),
                         ((height (?images ! i) - INPUT_IMAGE_SIZE + 1) div 2,
                          (width (?images ! i) - INPUT_IMAGE_SIZE + 1) div 2)] ! k) + r)
                  (width (?images ! i) - 1 -
                   (snd ([(0, 0),
                         (height (?images ! i) - INPUT_IMAGE_SIZE, 0),
                         (0, width (?images ! i) - INPUT_IMAGE_SIZE),
                         (height (?images ! i) - INPUT_IMAGE_SIZE,
                          width (?images ! i) - INPUT_IMAGE_SIZE),
                         ((height (?images ! i) - INPUT_IMAGE_SIZE + 1) div 2,
                          (width (?images ! i) - INPUT_IMAGE_SIZE + 1) div 2)] ! k) + c)) of
                  (pr, pg, pb) \<Rightarrow>
                    (pr - 122.10927936917298, pg - 116.5416959998387, pb - 102.61744377213829))))"
    by blast
  from nth [rule_format, of 0] have
    labs: "\<forall>k<10. tl ! (10 * 0 + k) = [4] ! 0"
    and sz: "\<forall>k<10. height (ti ! (10 * 0 + k)) = INPUT_IMAGE_SIZE
                  \<and> width (ti ! (10 * 0 + k)) = INPUT_IMAGE_SIZE"
    and imgs: "\<forall>k<5.
            (\<forall>r c. pix (ti ! (10 * 0 + k)) r c =
               (case pix (?images ! 0)
                  (fst ([(0, 0),
                         (height (?images ! 0) - INPUT_IMAGE_SIZE, 0),
                         (0, width (?images ! 0) - INPUT_IMAGE_SIZE),
                         (height (?images ! 0) - INPUT_IMAGE_SIZE,
                          width (?images ! 0) - INPUT_IMAGE_SIZE),
                         ((height (?images ! 0) - INPUT_IMAGE_SIZE + 1) div 2,
                          (width (?images ! 0) - INPUT_IMAGE_SIZE + 1) div 2)] ! k) + r)
                  (snd ([(0, 0),
                         (height (?images ! 0) - INPUT_IMAGE_SIZE, 0),
                         (0, width (?images ! 0) - INPUT_IMAGE_SIZE),
                         (height (?images ! 0) - INPUT_IMAGE_SIZE,
                          width (?images ! 0) - INPUT_IMAGE_SIZE),
                         ((height (?images ! 0) - INPUT_IMAGE_SIZE + 1) div 2,
                          (width (?images ! 0) - INPUT_IMAGE_SIZE + 1) div 2)] ! k) + c) of
                  (pr, pg, pb) \<Rightarrow>
                    (pr - 122.10927936917298, pg - 116.5416959998387, pb - 102.61744377213829)))
          \<and> (\<forall>r c. pix (ti ! (10 * 0 + (5 + k))) r c =
               (case pix (?images ! 0)
                  (fst ([(0, 0),
                         (height (?images ! 0) - INPUT_IMAGE_SIZE, 0),
                         (0, width (?images ! 0) - INPUT_IMAGE_SIZE),
                         (height (?images ! 0) - INPUT_IMAGE_SIZE,
                          width (?images ! 0) - INPUT_IMAGE_SIZE),
                         ((height (?images ! 0) - INPUT_IMAGE_SIZE + 1) div 2,
                          (width (?images ! 0) - INPUT_IMAGE_SIZE + 1) div 2)] ! k) + r)
                  (width (?images ! 0) - 1 -
                   (snd ([(0, 0),
                         (height (?images ! 0) - INPUT_IMAGE_SIZE, 0),
                         (0, width (?images ! 0) - INPUT_IMAGE_SIZE),
                         (height (?images ! 0) - INPUT_IMAGE_SIZE,
                          width (?images ! 0) - INPUT_IMAGE_SIZE),
                         ((height (?images ! 0) - INPUT_IMAGE_SIZE + 1) div 2,
                          (width (?images ! 0) - INPUT_IMAGE_SIZE + 1) div 2)] ! k) + c)) of
                  (pr, pg, pb) \<Rightarrow>
                    (pr - 122.10927936917298, pg - 116.5416959998387, pb - 102.61744377213829)))"
    by simp_all
  from labs [rule_format, of 0] labs [rule_format, of 9] sz [rule_format, of 4]
    imgs [rule_format, of 1] imgs [rule_format, of 4] run l
  show ?thesis
    by (intro exI [of _ ti] exI [of _ tl]) (simp add: INPUT_IMAGE_SIZE_def)
qed

text \<open>
  The claim as stated fails twice. The centre crop starts at row and column 15, which is
  not half of \<open>256 - 227 = 29\<close>, neither exactly nor rounded down. And the offsets are
  constants, not derived from the image: on a 300 by 300 image the five slices have
  different shapes and the worker fails instead of producing 10 variants.
\<close>

theorem C5_center_offset_counterexample:
  "pix (projr (image_cropping \<lparr> height = 256, width = 256, pix = \<lambda>r c. (real r, real c, 0) \<rparr>
                 False ((0, 0), (0, 0))) ! 4) 0 0
     = (15 - 122.10927936917298, 15 - 116.5416959998387, 0 - 102.61744377213829)
   \<and> (15::real) \<noteq> (256 - 227) / 2
   \<and> (15::nat) \<noteq> (256 - 227) div 2
   \<and> image_cropping \<lparr> height = 300, width = 300, pix = \<lambda>r c. (real r, real c, 0) \<rparr>
        False ((0, 0), (0, 0)) = Inl InvalidArgumentError"
  by (simp add: image_cropping_eval_256 image_cropping_eval_other tf_subtract_def slice2_def
        slice_bounds_def IMAGENET_MEAN_def)

text \<open>
  Claim C8. A batch that holds an image (of positive dimensions) smaller than 227 along
  either axis makes the worker fail, in training and in evaluation mode, and nothing is
  appended to \<open>q\<close>: the result is the error, not a partial batch.
\<close>

theorem C8_too_small_image_fails:
  assumes i: "i < length labels" "i < length images"
    and pos: "0 < height (images ! i)" "0 < width (images ! i)"
    and small: "height (images ! i) < 227 \<or> width (images ! i) < 227"
  shows "img_preprocessing q0 images labels True rnd = Inl InvalidArgumentError
       \<and> img_preprocessing q0 images labels False rnd = Inl InvalidArgumentError"
proof -
  have mem: "i \<in> set [0..<length labels]" using i by simp
  have t: "image_cropping (images ! i) True (rnd i) = Inl InvalidArgumentError"
    using small by (rule image_cropping_train_small)
  have e: "image_cropping (images ! i) False (rnd i) = Inl InvalidArgumentError"
    using pos small by (rule image_cropping_eval_small)
  show ?thesis
    using preprocess_loop_fail [where images = images and rnd = rnd, OF mem t, of labels "([], [])"]
      preprocess_loop_fail [where images = images and rnd = rnd, OF mem e, of labels "([], [])"]
    by (simp add: img_preprocessing_def)
qed

theorem C8_too_small_image_fails_witness:
  "(0::nat) < length [1::int]
   \<and> (0::nat) < length [\<lparr> height = 100, width = 300, pix = \<lambda>r c. (0, 0, 0) \<rparr>]
   \<and> img_preprocessing [] [\<lparr> height = 100, width = 300, pix = \<lambda>r c. (0, 0, 0) \<rparr>] [1] True
        (\<lambda>i. ((0, 0), (0, 0))) = Inl InvalidArgumentError
   \<and> img_preprocessing [] [\<lparr> height = 100, width = 300, pix = \<lambda>r c. (0, 0, 0) \<rparr>] [1] False
        (\<lambda>i. ((0, 0), (0, 0))) = Inl InvalidArgumentError"
  using C8_too_small_image_fails [of 0 "[1]"
      "[\<lparr> height = 100, width = 300, pix = \<lambda>r c. (0, 0, 0) \<rparr>]" "[]" "\<lambda>i. ((0, 0), (0, 0))"]
  by simp

section \<open>Properties of the stagnation check\<close>

lemma main_loop_Suc:
  "main_loop (Suc n) acc = epoch_body acc n (main_loop n acc)"
  by (simp add: main_loop_def)

lemma prev_test_accuracy_main_loop:
  "prev_test_accuracy (main_loop n acc) = (if n = 0 then - 1 else acc (n - 1))"
  by (cases n) (simp_all add: main_loop_Suc epoch_body_def Let_def, simp add: main_loop_def)

lemma log_epoch_body:
  "log (epoch_body acc e s) =
     log s @ [TrainPhase e, EvalPhase e]
       @ (if prev_test_accuracy s \<ge> acc e then [LrScheduling e] else [])"
  by (simp add: epoch_body_def Let_def)

text \<open>
  Claim C9. When every evaluation accuracy lies in \<open>[0,1]\<close>, the log of a run of \<open>n\<close>
  epochs is, epoch by epoch, the training phase, the evaluation phase and then at most one
  call of the learning-rate scheduling: none in the first epoch (the initial previous
  accuracy is \<open>-1\<close>), and from the second epoch on a call exactly when the previous epoch's
  accuracy is greater than or equal to the current one, a tie included.
\<close>

theorem C9_stagnation_signal:
  assumes "\<forall>e<n. 0 \<le> acc e \<and> acc e \<le> 1"
  shows "log (main_loop n acc) =
     concat (map (\<lambda>e. [TrainPhase e, EvalPhase e]
                       @ (if 0 < e \<and> acc (e - 1) \<ge> acc e then [LrScheduling e] else []))
                [0..<n])"
  using assms
proof (induction n)
  case 0
  show ?case by (simp add: main_loop_def)
next
  case (Suc n)
  then have ih: "log (main_loop n acc) =
     concat (map (\<lambda>e. [TrainPhase e, EvalPhase e]
                       @ (if 0 < e \<and> acc (e - 1) \<ge> acc e then [LrScheduling e] else []))
                [0..<n])"
    by simp
  from Suc.prems have "0 \<le> acc n" by simp
  then have first: "\<not> (- 1 \<ge> acc n)" by simp
  show ?case
    using first
    by (auto simp add: main_loop_Suc log_epoch_body ih prev_test_accuracy_main_loop)
qed

theorem C9_stagnation_signal_witness:
  "log (main_loop 3 (\<lambda>e. if e = 0 then 1/2 else if e = 1 then 1/2 else 7/10)) =
     [TrainPhase 0, EvalPhase 0, TrainPhase 1, EvalPhase 1, LrScheduling 1,
      TrainPhase 2, EvalPhase 2]"
proof -
  have h: "\<forall>e<3. 0 \<le> (\<lambda>e::nat. if e = 0 then 1/2 else if e = 1 then 1/2 else 7/10 :: real) e
      \<and> (\<lambda>e::nat. if e = 0 then 1/2 else if e = 1 then 1/2 else 7/10 :: real) e \<le> 1"
    by simp
  have u: "[0..<3] = [0, 1, 2]" by (simp add: upt_rec)
  show ?thesis
    using C9_stagnation_signal [OF h] by (simp add: u)
qed

section \<open>Properties of the re-split into sub-batches\<close>

declare shuffle_ds.simps [simp del] ds_batch.simps [simp del]






















section \<open>Properties of the double-buffer loop\<close>




















lemma epoch_phase_no_batches: "epoch_phase train rnd pick [] = Inl IndexError"
  by (simp add: epoch_phase_def last_step_def q_pop_def)





end
